theory Spec2Isabelle
  imports Main
begin

section \<open>The Windows registration shim of face_detection_tflite\<close>

text \<open>
  The repository's Windows sources are two C entry points
  (\<^verbatim>\<open>windows/registration.cpp\<close>, \<^verbatim>\<open>windows/face_detection_tflite_plugin_c_api.cpp\<close>)
  and the declaration of the class \<^verbatim>\<open>FaceDetectionTflitePlugin\<close>
  (\<^verbatim>\<open>windows/face_detection_tflite_plugin.h\<close>). The bodies of the class's member
  functions and the whole host framework (\<^verbatim>\<open>flutter::PluginRegistrarManager\<close>,
  \<^verbatim>\<open>flutter::MethodChannel\<close>, \<^verbatim>\<open>flutter::MethodResult\<close>) are not among them.
\<close>

subsection \<open>Data\<close>

text \<open>
  \<^verbatim>\<open>class FaceDetectionTflitePlugin : public flutter::Plugin\<close> declares a constructor, a
  destructor, two deleted copy operations and \<^verbatim>\<open>HandleMethodCall\<close>, and no data member:
  an instance carries no field, so the type has one value.
\<close>

datatype FaceDetectionTflitePlugin = FaceDetectionTflitePlugin

text \<open>
  \<^verbatim>\<open>flutter::MethodCall<EncodableValue>\<close>, the first parameter of \<^verbatim>\<open>HandleMethodCall\<close>:
  a method name and its arguments (the argument type is left open).
\<close>

record 'a MethodCall =
  method_name :: string
  arguments :: 'a

text \<open>
  \<^verbatim>\<open>flutter::MethodResult<EncodableValue>\<close>, the second parameter of \<^verbatim>\<open>HandleMethodCall\<close>:
  the sink on which the handler reports a success value, an error or "not implemented".
  The model returns what the handler reports on the sink.
\<close>

datatype ('v, 'e) MethodResult = Success 'v | Error 'e | NotImplemented

text \<open>
  A method channel of the host: the registrar whose messenger it is scoped to, its name,
  and the plugin instance (its position in \<open>plugins\<close>) whose handler is installed on it,
  if any.
\<close>

record 'r MethodChannel =
  channel_registrar :: 'r
  channel_name :: string
  channel_handler :: "nat option"

text \<open>
  The part of the process the shim acts on: the state of the singleton
  \<^verbatim>\<open>flutter::PluginRegistrarManager\<close> (its type \<open>'m\<close> is the host framework's), the
  \<^verbatim>\<open>FaceDetectionTflitePlugin\<close> instances constructed so far and the method channels
  created so far, both in order of creation.
\<close>

record ('m, 'r) host =
  manager :: 'm
  plugins :: "FaceDetectionTflitePlugin list"
  channels :: "'r MethodChannel list"

subsection \<open>The two C entry points\<close>

text \<open>
  Both entry points call two functions that are defined elsewhere, so both are parameters:
  \<^item> \<open>get_registrar\<close> stands for
    \<^verbatim>\<open>PluginRegistrarManager::GetInstance()->GetRegistrar<PluginRegistrarWindows>\<close>, of the
    host framework: from the opaque handle and the manager's state it yields the typed
    registrar and the manager's new state;
  \<^item> \<open>register_with_registrar\<close> stands for the static method
    \<^verbatim>\<open>FaceDetectionTflitePlugin::RegisterWithRegistrar\<close>, declared in the header with
    return type \<^verbatim>\<open>void\<close>: it acts on the process state and returns nothing else.
  Either callee may not return (a C++ exception, an abort): that is the value \<open>None\<close>.
  The entry points have return type \<^verbatim>\<open>void\<close> and install no exception handler, so a
  callee that does not return ends the entry point too.
\<close>

text \<open>
  \<^verbatim>\<open>registration.cpp\<close>: the typed registrar is bound to the local \<^verbatim>\<open>cpp_registrar\<close>, which is
  then passed to the static method.
\<close>

definition FaceDetectionTflitePluginRegisterWithRegistrar ::
  "('h \<Rightarrow> 'm \<Rightarrow> ('r \<times> 'm) option) \<Rightarrow> ('r \<Rightarrow> ('m, 'r) host \<Rightarrow> 'w option) \<Rightarrow>
   'h \<Rightarrow> ('m, 'r) host \<Rightarrow> 'w option" where
  "FaceDetectionTflitePluginRegisterWithRegistrar get_registrar register_with_registrar registrar w =
     (case get_registrar registrar (manager w) of
        None \<Rightarrow> None
      | Some (cpp_registrar, m) \<Rightarrow> register_with_registrar cpp_registrar (w\<lparr>manager := m\<rparr>))"

text \<open>
  \<^verbatim>\<open>face_detection_tflite_plugin_c_api.cpp\<close>: the lookup is written as the argument of the
  call of the static method.
\<close>

definition FaceDetectionTflitePluginCApiRegisterWithRegistrar ::
  "('h \<Rightarrow> 'm \<Rightarrow> ('r \<times> 'm) option) \<Rightarrow> ('r \<Rightarrow> ('m, 'r) host \<Rightarrow> 'w option) \<Rightarrow>
   'h \<Rightarrow> ('m, 'r) host \<Rightarrow> 'w option" where
  "FaceDetectionTflitePluginCApiRegisterWithRegistrar get_registrar register_with_registrar registrar w =
     Option.bind (get_registrar registrar (manager w))
       (\<lambda>found. register_with_registrar (fst found) (w\<lparr>manager := snd found\<rparr>))"

subsection \<open>The static registration method\<close>

text \<open>
  Modelled from the spec: the body of \<^verbatim>\<open>FaceDetectionTflitePlugin::RegisterWithRegistrar\<close>
  is missing from the sources (the header only declares it). The spec gives its effect
  in three steps: it "constructs a plugin instance, creates a named bidirectional method
  channel scoped to that registrar, and installs the instance's handler as the channel's
  call-result callback", and it has no failure path of its own. The channel's name is not
  shown by the sources, so it is the parameter \<open>name\<close>.
\<close>

definition RegisterWithRegistrar ::
  "string \<Rightarrow> 'r \<Rightarrow> ('m, 'r) host \<Rightarrow> ('m, 'r) host option" where
  "RegisterWithRegistrar name registrar w =
     (let plugin = length (plugins w);
          w1 = w\<lparr>plugins := plugins w @ [FaceDetectionTflitePlugin]\<rparr>;
          channel = length (channels w1);
          w2 = w1\<lparr>channels := channels w1 @
                 [\<lparr>channel_registrar = registrar, channel_name = name,
                   channel_handler = None\<rparr>]\<rparr>;
          w3 = w2\<lparr>channels := (channels w2)
                 [channel := (channels w2 ! channel)\<lparr>channel_handler := Some plugin\<rparr>]\<rparr>
      in Some w3)"

subsection \<open>The method-call handler\<close>

text \<open>
  Modelled from the spec: the body of \<^verbatim>\<open>FaceDetectionTflitePlugin::HandleMethodCall\<close> is
  missing from the sources (the header only declares it). The spec calls it the single
  handler entry point, "responsible for dispatching by method name", and requires that
  an unrecognized method name resolves to the "not implemented" outcome. The dispatch
  table is not shown, so it is the parameter \<open>recognized\<close>: a map from the recognized
  method names to their implementations. An implementation reports one outcome on the
  sink, or crashes (\<open>None\<close>).
\<close>

definition HandleMethodCall ::
  "(string \<rightharpoonup> ('a \<Rightarrow> ('v, 'e) MethodResult option)) \<Rightarrow> FaceDetectionTflitePlugin \<Rightarrow>
   'a MethodCall \<Rightarrow> ('v, 'e) MethodResult option" where
  "HandleMethodCall recognized this method_call =
     (case recognized (method_name method_call) of
        None \<Rightarrow> Some NotImplemented
      | Some implementation \<Rightarrow> implementation (arguments method_call))"

text \<open>
  Modelled from the spec: the delivery of a call that arrives on a channel belongs to
  the host framework and to the callback that the missing body of
  \<^verbatim>\<open>RegisterWithRegistrar\<close> installs. The spec: "Subsequent calls arriving on that channel
  are forwarded to the plugin instance's single handler entry point". The call goes to
  the handler of the instance installed on the channel; \<open>None\<close> when the channel does not
  exist or has no handler installed.
\<close>

definition channel_call ::
  "(FaceDetectionTflitePlugin \<Rightarrow> 'c \<Rightarrow> 'o) \<Rightarrow> ('m, 'r) host \<Rightarrow> nat \<Rightarrow> 'c \<Rightarrow> 'o option" where
  "channel_call handle_method_call w channel method_call =
     (if channel < length (channels w) then
        (case channel_handler (channels w ! channel) of
           None \<Rightarrow> None
         | Some plugin \<Rightarrow>
             if plugin < length (plugins w)
             then Some (handle_method_call (plugins w ! plugin) method_call)
             else None)
      else None)"

text \<open>
  A sequence of invocations of a member function on one instance. The member function's
  body is any function that receives the instance and a call, and returns the instance
  as it leaves it together with what it reports: nothing is assumed of the body, which
  may write to every field the class has.
\<close>

fun handle_calls ::
  "(FaceDetectionTflitePlugin \<Rightarrow> 'c \<Rightarrow> FaceDetectionTflitePlugin \<times> 'o) \<Rightarrow>
   FaceDetectionTflitePlugin \<Rightarrow> 'c list \<Rightarrow> FaceDetectionTflitePlugin \<times> 'o list" where
  "handle_calls body this [] = (this, [])"
| "handle_calls body this (method_call # rest) =
     (case body this method_call of
        (this1, reported) \<Rightarrow>
          (case handle_calls body this1 rest of
             (this2, reports) \<Rightarrow> (this2, reported # reports)))"

section \<open>Properties\<close>

subsection \<open>What the modelled registration does to the process state\<close>

lemma RegisterWithRegistrar_result:
  "RegisterWithRegistrar name r w =
     Some (w\<lparr>plugins := plugins w @ [FaceDetectionTflitePlugin],
             channels := channels w @
               [\<lparr>channel_registrar = r, channel_name = name,
                 channel_handler = Some (length (plugins w))\<rparr>]\<rparr>)"
  by (simp add: RegisterWithRegistrar_def Let_def)

lemma entry_result:
  assumes "get_registrar registrar (manager w) = Some (r, m)"
  shows "FaceDetectionTflitePluginRegisterWithRegistrar get_registrar reg registrar w =
           reg r (w\<lparr>manager := m\<rparr>)"
  using assms by (simp add: FaceDetectionTflitePluginRegisterWithRegistrar_def)

lemma c_api_entry_result:
  assumes "get_registrar registrar (manager w) = Some (r, m)"
  shows "FaceDetectionTflitePluginCApiRegisterWithRegistrar get_registrar reg registrar w =
           reg r (w\<lparr>manager := m\<rparr>)"
  using assms by (simp add: FaceDetectionTflitePluginCApiRegisterWithRegistrar_def)

subsection \<open>The claims\<close>

text \<open>
  C1. For every registrar handle whose lookup returns, one call of either registration
  entry point constructs exactly one plugin instance and creates exactly one method
  channel, bound to that instance: the instances after the call are those before it
  followed by the one new instance, the channels after the call are those before it
  followed by the one new channel, and the new channel's handler is the new instance,
  which did not exist before the call.
\<close>

theorem registration_creates_one_instance_one_channel:
  assumes lookup: "get_registrar registrar (manager w) = Some (r, m)"
  shows "\<exists>w'. FaceDetectionTflitePluginRegisterWithRegistrar get_registrar
                (RegisterWithRegistrar name) registrar w = Some w' \<and>
              FaceDetectionTflitePluginCApiRegisterWithRegistrar get_registrar
                (RegisterWithRegistrar name) registrar w = Some w' \<and>
              plugins w' = plugins w @ [FaceDetectionTflitePlugin] \<and>
              length (plugins w') = length (plugins w) + 1 \<and>
              butlast (channels w') = channels w \<and>
              length (channels w') = length (channels w) + 1 \<and>
              channel_handler (last (channels w')) = Some (length (plugins w))"
proof -
  let ?w' = "w\<lparr>manager := m, plugins := plugins w @ [FaceDetectionTflitePlugin],
               channels := channels w @
                 [\<lparr>channel_registrar = r, channel_name = name,
                   channel_handler = Some (length (plugins w))\<rparr>]\<rparr>"
  have reg: "RegisterWithRegistrar name r (w\<lparr>manager := m\<rparr>) = Some ?w'"
    by (simp add: RegisterWithRegistrar_result)
  have "FaceDetectionTflitePluginRegisterWithRegistrar get_registrar
          (RegisterWithRegistrar name) registrar w = Some ?w'"
    using lookup reg by (simp add: entry_result)
  moreover have "FaceDetectionTflitePluginCApiRegisterWithRegistrar get_registrar
          (RegisterWithRegistrar name) registrar w = Some ?w'"
    using lookup reg by (simp add: c_api_entry_result)
  ultimately show ?thesis by simp
qed

theorem registration_creates_one_instance_one_channel_witness:
  "\<exists>w'. FaceDetectionTflitePluginRegisterWithRegistrar (\<lambda>h m. Some (h + 100, m))
            (RegisterWithRegistrar ''face_detection_tflite'') (7::nat)
            \<lparr>manager = (), plugins = [], channels = []\<rparr> = Some w' \<and>
          FaceDetectionTflitePluginCApiRegisterWithRegistrar (\<lambda>h m. Some (h + 100, m))
            (RegisterWithRegistrar ''face_detection_tflite'') (7::nat)
            \<lparr>manager = (), plugins = [], channels = []\<rparr> = Some w' \<and>
          plugins w' = [FaceDetectionTflitePlugin] \<and> length (channels w') = 1 \<and>
          channel_handler (last (channels w')) = Some 0"
  using registration_creates_one_instance_one_channel
    [of "\<lambda>h m. Some (h + 100, m)" "7::nat" "\<lparr>manager = (), plugins = [], channels = []\<rparr>"
        "107::nat" "()" "''face_detection_tflite''"]
  by auto

text \<open>
  C2. For every opaque registrar handle, either entry point first looks the typed
  registrar up in the manager and then passes it to the registration method, which
  constructs the plugin instance and binds the named channel to its handler: when the
  lookup does not return, nothing is registered; when it yields the registrar \<open>r\<close> and
  the manager's state \<open>m\<close>, the resulting process state has the manager's state \<open>m\<close>, one
  more plugin instance and one more channel, scoped to \<open>r\<close>, carrying the channel's name
  and having the new instance's handler installed.
\<close>

theorem registration_steps_in_order:
  "FaceDetectionTflitePluginRegisterWithRegistrar get_registrar
     (RegisterWithRegistrar name) registrar w =
     (case get_registrar registrar (manager w) of
        None \<Rightarrow> None
      | Some (r, m) \<Rightarrow>
          Some \<lparr>manager = m, plugins = plugins w @ [FaceDetectionTflitePlugin],
                channels = channels w @
                  [\<lparr>channel_registrar = r, channel_name = name,
                    channel_handler = Some (length (plugins w))\<rparr>]\<rparr>) \<and>
   FaceDetectionTflitePluginCApiRegisterWithRegistrar get_registrar
     (RegisterWithRegistrar name) registrar w =
     (case get_registrar registrar (manager w) of
        None \<Rightarrow> None
      | Some (r, m) \<Rightarrow>
          Some \<lparr>manager = m, plugins = plugins w @ [FaceDetectionTflitePlugin],
                channels = channels w @
                  [\<lparr>channel_registrar = r, channel_name = name,
                    channel_handler = Some (length (plugins w))\<rparr>]\<rparr>)"
  by (simp add: FaceDetectionTflitePluginRegisterWithRegistrar_def
      FaceDetectionTflitePluginCApiRegisterWithRegistrar_def RegisterWithRegistrar_result
      split: option.split)

theorem registration_steps_in_order_witness:
  "FaceDetectionTflitePluginRegisterWithRegistrar
     (\<lambda>h m. if h = 0 then None else Some (h + 100, h # m))
     (RegisterWithRegistrar ''face_detection_tflite'') (7::nat)
     \<lparr>manager = [], plugins = [], channels = []\<rparr> =
   Some \<lparr>manager = [7], plugins = [FaceDetectionTflitePlugin],
         channels = [\<lparr>channel_registrar = 107, channel_name = ''face_detection_tflite'',
                      channel_handler = Some 0\<rparr>]\<rparr> \<and>
   FaceDetectionTflitePluginCApiRegisterWithRegistrar
     (\<lambda>h m. if h = 0 then None else Some (h + 100, h # m))
     (RegisterWithRegistrar ''face_detection_tflite'') (0::nat)
     \<lparr>manager = [], plugins = [], channels = []\<rparr> = None"
  using registration_steps_in_order
    [of "\<lambda>h m. if h = 0 then None else Some (h + 100, h # m)"
        "''face_detection_tflite''" "7::nat" "\<lparr>manager = [], plugins = [], channels = []\<rparr>"]
    registration_steps_in_order
    [of "\<lambda>h m. if h = 0 then None else Some (h + 100, h # m)"
        "''face_detection_tflite''" "0::nat" "\<lparr>manager = [], plugins = [], channels = []\<rparr>"]
  by simp

text \<open>
  C3. For every inbound call whose method name is not a recognized one, the handler
  returns and reports "not implemented" on the sink: it reports no success value and it
  does not crash.
\<close>

theorem unrecognized_method_not_implemented:
  assumes "method_name method_call \<notin> dom recognized"
  shows "HandleMethodCall recognized this method_call = Some NotImplemented \<and>
         (\<forall>v. HandleMethodCall recognized this method_call \<noteq> Some (Success v)) \<and>
         HandleMethodCall recognized this method_call \<noteq> None"
  using assms by (auto simp: HandleMethodCall_def split: option.split)

theorem unrecognized_method_not_implemented_witness:
  "HandleMethodCall [''getPlatformVersion'' \<mapsto> (\<lambda>_. Some (Success ''Windows 10+''))]
     FaceDetectionTflitePlugin \<lparr>method_name = ''detect'', arguments = ()\<rparr> =
   (Some NotImplemented :: (string, unit) MethodResult option)"
  using unrecognized_method_not_implemented
    [of "\<lparr>method_name = ''detect'', arguments = ()\<rparr>"
        "[''getPlatformVersion'' \<mapsto> (\<lambda>_. Some (Success ''Windows 10+''))] ::
           string \<rightharpoonup> (unit \<Rightarrow> (string, unit) MethodResult option)"
        FaceDetectionTflitePlugin]
  by simp

text \<open>
  C4. Registration has no failure path of its own and hands no error value back: for
  every registrar handle, whatever the lookup and the registration method do, an entry
  point does not return exactly when the lookup or the registration method does not
  return (it neither recovers nor retries), and otherwise it completes with exactly the
  process state the registration method leaves.
\<close>

theorem registration_completes_or_is_fatal:
  "(FaceDetectionTflitePluginRegisterWithRegistrar get_registrar register_with_registrar
      registrar w = None) =
   (get_registrar registrar (manager w) = None \<or>
    (\<exists>r m. get_registrar registrar (manager w) = Some (r, m) \<and>
           register_with_registrar r (w\<lparr>manager := m\<rparr>) = None)) \<and>
   (FaceDetectionTflitePluginCApiRegisterWithRegistrar get_registrar register_with_registrar
      registrar w = None) =
   (get_registrar registrar (manager w) = None \<or>
    (\<exists>r m. get_registrar registrar (manager w) = Some (r, m) \<and>
           register_with_registrar r (w\<lparr>manager := m\<rparr>) = None)) \<and>
   (FaceDetectionTflitePluginRegisterWithRegistrar get_registrar register_with_registrar
      registrar w = Some w') =
   (\<exists>r m. get_registrar registrar (manager w) = Some (r, m) \<and>
          register_with_registrar r (w\<lparr>manager := m\<rparr>) = Some w') \<and>
   (FaceDetectionTflitePluginCApiRegisterWithRegistrar get_registrar register_with_registrar
      registrar w = Some w') =
   (\<exists>r m. get_registrar registrar (manager w) = Some (r, m) \<and>
          register_with_registrar r (w\<lparr>manager := m\<rparr>) = Some w')"
  by (cases "get_registrar registrar (manager w)")
     (auto simp: FaceDetectionTflitePluginRegisterWithRegistrar_def
        FaceDetectionTflitePluginCApiRegisterWithRegistrar_def)

text \<open>
  C5. The plugin instance carries no mutable state: the class declares no data field,
  so after every sequence of handler invocations, whatever the handler's body does, the
  instance is what it was before.
\<close>

theorem plugin_instance_unchanged:
  "fst (handle_calls body this method_calls) = this"
  by (cases "fst (handle_calls body this method_calls)"; cases this) simp

text \<open>
  C6. The handler receives the call descriptor (method name and arguments) and reports
  on the sink, whose outcomes are a success value, an error or "not implemented"; it is
  the entry point that calls arriving on the plugin's channel reach: after registration
  through either entry point, a call on the channel that the registration created is
  forwarded to \<open>HandleMethodCall\<close> of the registered instance, and whatever the handler
  reports is one of the three outcomes.
\<close>

theorem channel_calls_forwarded_to_handler:
  assumes lookup: "get_registrar registrar (manager w) = Some (r, m)"
  shows "\<exists>w'. FaceDetectionTflitePluginRegisterWithRegistrar get_registrar
                (RegisterWithRegistrar name) registrar w = Some w' \<and>
              FaceDetectionTflitePluginCApiRegisterWithRegistrar get_registrar
                (RegisterWithRegistrar name) registrar w = Some w' \<and>
              channel_call (HandleMethodCall recognized) w' (length (channels w)) method_call =
                Some (HandleMethodCall recognized FaceDetectionTflitePlugin method_call) \<and>
              (\<forall>reported.
                 HandleMethodCall recognized FaceDetectionTflitePlugin method_call = Some reported \<longrightarrow>
                 (\<exists>v. reported = Success v) \<or> (\<exists>e. reported = Error e) \<or>
                 reported = NotImplemented)"
proof -
  let ?w' = "w\<lparr>manager := m, plugins := plugins w @ [FaceDetectionTflitePlugin],
               channels := channels w @
                 [\<lparr>channel_registrar = r, channel_name = name,
                   channel_handler = Some (length (plugins w))\<rparr>]\<rparr>"
  have reg: "RegisterWithRegistrar name r (w\<lparr>manager := m\<rparr>) = Some ?w'"
    by (simp add: RegisterWithRegistrar_result)
  have a: "FaceDetectionTflitePluginRegisterWithRegistrar get_registrar
          (RegisterWithRegistrar name) registrar w = Some ?w'"
    using lookup reg by (simp add: entry_result)
  have b: "FaceDetectionTflitePluginCApiRegisterWithRegistrar get_registrar
          (RegisterWithRegistrar name) registrar w = Some ?w'"
    using lookup reg by (simp add: c_api_entry_result)
  have c: "channel_call (HandleMethodCall recognized) ?w' (length (channels w)) method_call =
             Some (HandleMethodCall recognized FaceDetectionTflitePlugin method_call)"
    by (simp add: channel_call_def)
  have d: "\<forall>reported.
             HandleMethodCall recognized FaceDetectionTflitePlugin method_call = Some reported \<longrightarrow>
             (\<exists>v. reported = Success v) \<or> (\<exists>e. reported = Error e) \<or> reported = NotImplemented"
    by (meson MethodResult.exhaust)
  from a b c d show ?thesis by blast
qed

theorem channel_calls_forwarded_to_handler_witness:
  "\<exists>w'. FaceDetectionTflitePluginRegisterWithRegistrar (\<lambda>h m. Some (h + 100, m))
            (RegisterWithRegistrar ''face_detection_tflite'') (7::nat)
            \<lparr>manager = (), plugins = [], channels = []\<rparr> = Some w' \<and>
          channel_call
            (HandleMethodCall [''getPlatformVersion'' \<mapsto> (\<lambda>_. Some (Success ''Windows 10+''))])
            w' 0 \<lparr>method_name = ''getPlatformVersion'', arguments = ()\<rparr> =
          Some (Some (Success ''Windows 10+'' :: (string, unit) MethodResult))"
  using channel_calls_forwarded_to_handler
    [of "\<lambda>h m. Some (h + 100, m)" "7::nat" "\<lparr>manager = (), plugins = [], channels = []\<rparr>"
        "107::nat" "()" "''face_detection_tflite''"
        "[''getPlatformVersion'' \<mapsto> (\<lambda>_. Some (Success ''Windows 10+''))] ::
           string \<rightharpoonup> (unit \<Rightarrow> (string, unit) MethodResult option)"
        "\<lparr>method_name = ''getPlatformVersion'', arguments = ()\<rparr>"]
  by (auto simp: HandleMethodCall_def)

text \<open>
  C8. The two C entry points are equivalent: for every registrar handle and every process
  state, whatever the manager's lookup and the static registration method do, both
  entry points pass the looked-up registrar to the same method and have the same effect.
\<close>

theorem entry_points_equivalent:
  "FaceDetectionTflitePluginRegisterWithRegistrar get_registrar register_with_registrar registrar w =
   FaceDetectionTflitePluginCApiRegisterWithRegistrar get_registrar register_with_registrar registrar w"
  unfolding FaceDetectionTflitePluginRegisterWithRegistrar_def
    FaceDetectionTflitePluginCApiRegisterWithRegistrar_def
  by (cases "get_registrar registrar (manager w)") auto

text \<open>
  C10. The entry points are deterministic in the registrar handle: what they pass on to
  the registration method is the registrar that the singleton manager's lookup yields
  for the handle, and nothing else of the process influences it. For two invocations
  with the same handle in process states that agree on the manager's state (and may
  differ in everything else), through either entry point, a registration method that
  looks at its registrar alone gives the same outcome.
\<close>

theorem registrar_passed_on_depends_on_handle_only:
  assumes "manager w1 = manager w2"
  shows "FaceDetectionTflitePluginRegisterWithRegistrar get_registrar (\<lambda>r _. observe r)
           registrar w1 =
         FaceDetectionTflitePluginRegisterWithRegistrar get_registrar (\<lambda>r _. observe r)
           registrar w2 \<and>
         FaceDetectionTflitePluginCApiRegisterWithRegistrar get_registrar (\<lambda>r _. observe r)
           registrar w1 =
         FaceDetectionTflitePluginCApiRegisterWithRegistrar get_registrar (\<lambda>r _. observe r)
           registrar w2 \<and>
         FaceDetectionTflitePluginRegisterWithRegistrar get_registrar (\<lambda>r _. observe r)
           registrar w1 =
         FaceDetectionTflitePluginCApiRegisterWithRegistrar get_registrar (\<lambda>r _. observe r)
           registrar w2"
  using assms
  by (cases "get_registrar registrar (manager w2)")
     (auto simp: FaceDetectionTflitePluginRegisterWithRegistrar_def
        FaceDetectionTflitePluginCApiRegisterWithRegistrar_def)

theorem registrar_passed_on_depends_on_handle_only_witness:
  "FaceDetectionTflitePluginRegisterWithRegistrar (\<lambda>h m. Some (h + m, Suc m))
     (\<lambda>r _. Some r) (7::nat) \<lparr>manager = 1::nat, plugins = [], channels = []\<rparr> = Some 8 \<and>
   FaceDetectionTflitePluginCApiRegisterWithRegistrar (\<lambda>h m. Some (h + m, Suc m))
     (\<lambda>r _. Some r) (7::nat)
     \<lparr>manager = 1::nat, plugins = [FaceDetectionTflitePlugin],
      channels = [\<lparr>channel_registrar = 3, channel_name = ''other'', channel_handler = Some 0\<rparr>]\<rparr> =
   Some 8"
  using registrar_passed_on_depends_on_handle_only
    [of "\<lparr>manager = 1::nat, plugins = [], channels = []\<rparr>"
        "\<lparr>manager = 1::nat, plugins = [FaceDetectionTflitePlugin],
          channels = [\<lparr>channel_registrar = 3::nat, channel_name = ''other'',
                       channel_handler = Some 0\<rparr>]\<rparr>"
        "\<lambda>h m. Some (h + m, Suc m)" Some "7::nat"]
  by (simp add: FaceDetectionTflitePluginRegisterWithRegistrar_def
      FaceDetectionTflitePluginCApiRegisterWithRegistrar_def)

end
